theory Spec2Isabelle
  imports Main
begin

section \<open>JavaScript values, strings and errors\<close>

text \<open>
  The controllers of \<^verbatim>\<open>user.controllers.js\<close> are embedded as functions from a request and
  a world (document store, local temporary files, log of outbound effects) to a result and
  the world after the call. A thrown error is the \<open>Inl\<close> of the result; the world is
  returned in both cases, because what was written before a \<^verbatim>\<open>throw\<close> stays written.
  A field that may be \<^verbatim>\<open>undefined\<close> is an \<open>option\<close>. Request fields are strings or
  absent; characters are ASCII.
\<close>

datatype jsval =
    JUndefined
  | JNull
  | JStr string
  | JArr "jsval list"
  | JObj "(string \<times> jsval) list"

type_synonym js_object = "(string \<times> jsval) list"

text \<open>
  Modelled from the spec: \<^verbatim>\<open>utils/ApiError.js\<close> is not among the sources; an
  \<^verbatim>\<open>ApiError\<close> carries a status code and a message. The other constructors are the
  untyped errors of the runtime and of the libraries.
\<close>

datatype error =
    ApiError nat string
  | TypeError string
  | FsError string
  | StoreError string
  | JwtError string

fun error_message :: "error \<Rightarrow> string" where
  "error_message (ApiError c m) = m"
| "error_message (TypeError m) = m"
| "error_message (FsError m) = m"
| "error_message (StoreError m) = m"
| "error_message (JwtError m) = m"

text \<open>\<^verbatim>\<open>!x\<close> for a value that is a string or undefined: the empty string is falsy.\<close>

definition truthy :: "string option \<Rightarrow> bool" where
  "truthy v = (case v of None \<Rightarrow> False | Some s \<Rightarrow> s \<noteq> [])"

text \<open>\<^verbatim>\<open>a || b\<close>\<close>

definition js_or :: "string option \<Rightarrow> string option \<Rightarrow> string option" where
  "js_or a b = (if truthy a then a else b)"

definition is_space :: "char \<Rightarrow> bool" where
  "is_space c = (c \<in> set [CHR '' '', CHR 0x09, CHR 0x0A, CHR 0x0B, CHR 0x0C, CHR 0x0D])"

definition trim :: "string \<Rightarrow> string" where
  "trim s = rev (dropWhile is_space (rev (dropWhile is_space s)))"

definition toLowerCase_char :: "char \<Rightarrow> char" where
  "toLowerCase_char c =
     (case map_of (zip ''ABCDEFGHIJKLMNOPQRSTUVWXYZ'' ''abcdefghijklmnopqrstuvwxyz'') c of
        None \<Rightarrow> c
      | Some d \<Rightarrow> d)"

definition toLowerCase :: "string \<Rightarrow> string" where
  "toLowerCase s = map toLowerCase_char s"

text \<open>\<^verbatim>\<open>validator.isLowercase(str)\<close> is \<^verbatim>\<open>str === str.toLowerCase()\<close>.\<close>

definition isLowercase :: "string \<Rightarrow> bool" where
  "isLowercase s = (s = toLowerCase s)"

text \<open>
  \<^verbatim>\<open>fields.some((field) => field.trim() === "")\<close>: the fields are visited in order and
  the first blank one ends the loop; \<^verbatim>\<open>.trim()\<close> on an undefined field that is reached
  throws a TypeError.
\<close>

fun some_blank :: "string option list \<Rightarrow> error + bool" where
  "some_blank [] = Inr False"
| "some_blank (None # fs) = Inl (TypeError ''Cannot read properties of undefined (reading 'trim')'')"
| "some_blank (Some s # fs) = (if trim s = [] then Inr True else some_blank fs)"

text \<open>\<^verbatim>\<open>fields.some((field) => field?.trim() === "")\<close>: an undefined field is not blank.\<close>

fun some_blank_opt :: "string option list \<Rightarrow> bool" where
  "some_blank_opt [] = False"
| "some_blank_opt (None # fs) = some_blank_opt fs"
| "some_blank_opt (Some s # fs) = (if trim s = [] then True else some_blank_opt fs)"

section \<open>The user document (\<^verbatim>\<open>user.models.js\<close>)\<close>

text \<open>
  The fields of \<^verbatim>\<open>userSchema\<close>. \<^verbatim>\<open>_id\<close> is \<open>uid\<close>; the timestamps and the version
  key, which no controller reads, are left out.
\<close>

record user =
  uid :: string
  username :: string
  email :: string
  fullName :: string
  avatar :: string
  avatarId :: "string option"
  coverImage :: "string option"
  coverImageId :: "string option"
  watchHistory :: "string list"
  password :: string
  refreshToken :: "string option"

record jwt_payload =
  payload_id :: "string option"
  payload_email :: "string option"
  payload_username :: "string option"
  payload_fullName :: "string option"

record upload_response =
  url :: string
  public_id :: string

record destroy_response =
  result :: string

text \<open>
  What the code takes from outside the repository: the process environment, the
  \<^verbatim>\<open>jsonwebtoken\<close>, \<^verbatim>\<open>bcrypt\<close>, \<^verbatim>\<open>validator\<close> and \<^verbatim>\<open>cloudinary\<close>
  libraries, the id of the next created document, and what the object-document mapper does
  with an \<^verbatim>\<open>undefined\<close> value under \<^verbatim>\<open>$set\<close> (\<open>omitUndefined\<close>: the key is dropped
  from the update; otherwise the field is written as null). A library call that throws
  returns \<open>None\<close> (\<open>Inl\<close> with the message for \<^verbatim>\<open>jwt.verify\<close>).
\<close>

record env =
  ACCESS_TOKEN_SECRET :: string
  ACCESS_TOKEN_EXPIRY :: string
  REFRESH_TOKEN_SECRET :: string
  REFRESH_TOKEN_EXPIRY :: string
  jwt_sign :: "jwt_payload \<Rightarrow> string \<Rightarrow> string \<Rightarrow> string option"
  jwt_verify :: "string \<Rightarrow> string \<Rightarrow> string + jwt_payload"
  bcrypt_hash :: "string \<Rightarrow> nat \<Rightarrow> string"
  bcrypt_compare :: "string \<Rightarrow> string \<Rightarrow> bool"
  isEmail :: "string \<Rightarrow> bool"
  cloud_upload :: "string \<Rightarrow> upload_response option"
  cloud_destroy :: "string \<Rightarrow> destroy_response option"
  new_ObjectId :: string
  omitUndefined :: bool

section \<open>The world: store, temporary files, effects\<close>

datatype event =
    Upload string
  | Destroy string
  | Unlink string
  | StoreWrite string

record world =
  users :: "user list"
  local_files :: "string list"
  trace :: "event list"

definition emit :: "event \<Rightarrow> world \<Rightarrow> world" where
  "emit e w = w\<lparr>trace := trace w @ [e]\<rparr>"

text \<open>\<^verbatim>\<open>fs.unlinkSync(path)\<close>: removes the file, or throws when there is none.\<close>

definition unlinkSync :: "string \<Rightarrow> world \<Rightarrow> (error + unit) \<times> world" where
  "unlinkSync p w =
     (if p \<in> set (local_files w)
      then (Inr (), emit (Unlink p) (w\<lparr>local_files := removeAll p (local_files w)\<rparr>))
      else (Inl (FsError ''ENOENT: no such file or directory''), w))"

section \<open>The media uploader (\<^verbatim>\<open>utils/cloudinary.js\<close>)\<close>

text \<open>
  \<^verbatim>\<open>uploadOnCloudinary\<close>: null for a falsy path; otherwise the remote upload, then the
  unlink of the local file. An error inside \<^verbatim>\<open>try\<close> (the upload's, or the unlink's after
  a successful upload) enters \<^verbatim>\<open>catch\<close> (\<open>upload_catch\<close>), which unlinks and returns
  null; an error of the unlink inside \<^verbatim>\<open>catch\<close> leaves the function.
\<close>

definition upload_catch ::
  "string \<Rightarrow> world \<Rightarrow> (error + upload_response option) \<times> world" where
  "upload_catch p w =
     (case unlinkSync p w of
        (Inl e, w') \<Rightarrow> (Inl e, w')
      | (Inr _, w') \<Rightarrow> (Inr None, w'))"

definition uploadOnCloudinary ::
  "env \<Rightarrow> string option \<Rightarrow> world \<Rightarrow> (error + upload_response option) \<times> world" where
  "uploadOnCloudinary ev localFilePath w =
     (case localFilePath of
        None \<Rightarrow> (Inr None, w)
      | Some p \<Rightarrow>
          (if p = [] then (Inr None, w)
           else
             (case cloud_upload ev p of
                None \<Rightarrow> upload_catch p (emit (Upload p) w)
              | Some response \<Rightarrow>
                  (case unlinkSync p (emit (Upload p) w) of
                     (Inl e, w2) \<Rightarrow> upload_catch p w2
                   | (Inr _, w2) \<Rightarrow> (Inr (Some response), w2)))))"

text \<open>
  \<^verbatim>\<open>deleteOnCloudinary\<close>: null for a falsy id and when the remote call throws; it never
  throws itself.
\<close>

definition deleteOnCloudinary ::
  "env \<Rightarrow> string option \<Rightarrow> world \<Rightarrow> destroy_response option \<times> world" where
  "deleteOnCloudinary ev publicId w =
     (case publicId of
        None \<Rightarrow> (None, w)
      | Some i \<Rightarrow>
          if i = [] then (None, w)
          else (cloud_destroy ev i, emit (Destroy i) w))"

text \<open>
  The same source file keeps a superseded revision of \<^verbatim>\<open>uploadOnCloudinary\<close> (its
  lines 55 to 68), which unlinks in \<^verbatim>\<open>catch\<close> only. The controllers import
  \<^verbatim>\<open>deleteOnCloudinary\<close>, which only the revision above exports, and the superseded module
  configures an unbound name \<^verbatim>\<open>cloudinary\<close>; it is embedded for comparison.
\<close>

definition uploadOnCloudinary_rev1 ::
  "env \<Rightarrow> string option \<Rightarrow> world \<Rightarrow> (error + upload_response option) \<times> world" where
  "uploadOnCloudinary_rev1 ev localFilePath w =
     (case localFilePath of
        None \<Rightarrow> (Inr None, w)
      | Some p \<Rightarrow>
          (if p = [] then (Inr None, w)
           else
             (case cloud_upload ev p of
                None \<Rightarrow> upload_catch p (emit (Upload p) w)
              | Some response \<Rightarrow> (Inr (Some response), emit (Upload p) w))))"

section \<open>The credential store\<close>

text \<open>
  The collection is the list of its documents in insertion order; a query returns the first
  match. The store itself does not fail, except where the schema validates a new document
  and where a unique index refuses a duplicate.
\<close>

definition findById :: "string option \<Rightarrow> user list \<Rightarrow> user option" where
  "findById i us = (case i of None \<Rightarrow> None | Some j \<Rightarrow> find (\<lambda>u. uid u = j) us)"

text \<open>
  The setters that \<^verbatim>\<open>userSchema\<close> declares for \<^verbatim>\<open>username\<close> and \<^verbatim>\<open>email\<close>
  (\<^verbatim>\<open>lowercase: true\<close>, \<^verbatim>\<open>trim: true\<close>).
\<close>

definition schema_setter :: "string \<Rightarrow> string" where
  "schema_setter s = trim (toLowerCase s)"

text \<open>
  \<^verbatim>\<open>User.findOne({ $or: [{ username }, { email }] })\<close>: the values of the filter are cast
  through the setters of the schema before they are compared with the stored ones; an
  undefined value matches no document.
\<close>

definition findOne_or :: "string option \<Rightarrow> string option \<Rightarrow> user list \<Rightarrow> user option" where
  "findOne_or un em us =
     find (\<lambda>u. map_option schema_setter un = Some (username u)
              \<or> map_option schema_setter em = Some (email u)) us"

fun update_first :: "('a \<Rightarrow> bool) \<Rightarrow> ('a \<Rightarrow> 'a) \<Rightarrow> 'a list \<Rightarrow> 'a list" where
  "update_first P f [] = []"
| "update_first P f (x # xs) = (if P x then f x # xs else x # update_first P f xs)"

text \<open>
  \<^verbatim>\<open>User.findByIdAndUpdate(id, { $set: ... }, { new: true })\<close>: the update as a function on
  the document; the document after the update is returned, null when there is none.
\<close>

definition findByIdAndUpdate ::
  "string option \<Rightarrow> (user \<Rightarrow> user) \<Rightarrow> world \<Rightarrow> user option \<times> world" where
  "findByIdAndUpdate i f w =
     (case findById i (users w) of
        None \<Rightarrow> (None, w)
      | Some u \<Rightarrow>
          (Some (f u),
           emit (StoreWrite (uid u))
             (w\<lparr>users := update_first (\<lambda>x. uid x = uid u) f (users w)\<rparr>)))"

text \<open>
  \<^verbatim>\<open>userSchema.pre("save")\<close>: the password is hashed only when it was modified.
\<close>

definition pre_save :: "env \<Rightarrow> bool \<Rightarrow> user \<Rightarrow> user" where
  "pre_save ev isModified_password u =
     (if \<not> isModified_password then u
      else u\<lparr>password := bcrypt_hash ev (password u) 10\<rparr>)"

text \<open>\<^verbatim>\<open>user.save({ validateBeforeSave: false })\<close> of a loaded document.\<close>

definition save :: "env \<Rightarrow> bool \<Rightarrow> user \<Rightarrow> world \<Rightarrow> world" where
  "save ev isModified_password u w =
     emit (StoreWrite (uid u))
       (w\<lparr>users := update_first (\<lambda>x. uid x = uid u)
                     (\<lambda>_. pre_save ev isModified_password u) (users w)\<rparr>)"

text \<open>
  \<^verbatim>\<open>User.create\<close>: the schema's setters (\<^verbatim>\<open>lowercase\<close>, \<^verbatim>\<open>trim\<close>), its
  \<^verbatim>\<open>required\<close> validators, the \<^verbatim>\<open>pre("save")\<close> hook on a new document (every path is
  modified), then the insert, which the unique indexes can refuse.
\<close>

definition User_create ::
  "env \<Rightarrow> string option \<Rightarrow> string \<Rightarrow> string option \<Rightarrow> string option \<Rightarrow> string option \<Rightarrow>
   string \<Rightarrow> string \<Rightarrow> string option \<Rightarrow> world \<Rightarrow> (error + user) \<times> world" where
  "User_create ev fn av avId cov covId un em pw w =
     (case fn of
        None \<Rightarrow> (Inl (StoreError ''User validation failed''), w)
      | Some f \<Rightarrow>
          (case pw of
             None \<Rightarrow> (Inl (StoreError ''User validation failed''), w)
           | Some p \<Rightarrow>
               (let doc = \<lparr>uid = new_ObjectId ev,
                           username = trim (toLowerCase un),
                           email = trim (toLowerCase em),
                           fullName = trim f,
                           avatar = av,
                           avatarId = avId,
                           coverImage = cov,
                           coverImageId = covId,
                           watchHistory = [],
                           password = p,
                           refreshToken = None\<rparr>
                in if username doc = [] \<or> email doc = [] \<or> fullName doc = [] \<or> av = [] \<or> p = []
                   then (Inl (StoreError ''User validation failed''), w)
                   else if list_ex (\<lambda>u. uid u = uid doc \<or> username u = username doc
                                          \<or> email u = email doc) (users w)
                   then (Inl (StoreError ''E11000 duplicate key error''), w)
                   else (Inr (pre_save ev True doc),
                         emit (StoreWrite (uid doc))
                           (w\<lparr>users := users w @ [pre_save ev True doc]\<rparr>)))))"

text \<open>The document as an object; an undefined field is absent.\<close>

definition opt_field :: "string \<Rightarrow> string option \<Rightarrow> js_object" where
  "opt_field k v = (case v of None \<Rightarrow> [] | Some s \<Rightarrow> [(k, JStr s)])"

definition to_object :: "user \<Rightarrow> js_object" where
  "to_object u =
     [(''_id'', JStr (uid u)),
      (''username'', JStr (username u)),
      (''email'', JStr (email u)),
      (''fullName'', JStr (fullName u)),
      (''avatar'', JStr (avatar u))]
     @ opt_field ''avatarId'' (avatarId u)
     @ opt_field ''coverImage'' (coverImage u)
     @ opt_field ''coverImageId'' (coverImageId u)
     @ [(''watchHistory'', JArr (map JStr (watchHistory u))),
        (''password'', JStr (password u))]
     @ opt_field ''refreshToken'' (refreshToken u)"

text \<open>
  \<^verbatim>\<open>.select("-password -refreshToken ...")\<close>: the projection without the listed fields,
  given as the list of their names.
\<close>

definition select :: "string list \<Rightarrow> user \<Rightarrow> js_object" where
  "select excluded u = filter (\<lambda>kv. fst kv \<notin> set excluded) (to_object u)"

definition select_opt :: "string list \<Rightarrow> user option \<Rightarrow> jsval" where
  "select_opt excluded u = (case u of None \<Rightarrow> JNull | Some x \<Rightarrow> JObj (select excluded x))"

text \<open>The record-bound methods of the schema.\<close>

definition isPasswordCorrect :: "env \<Rightarrow> user \<Rightarrow> string \<Rightarrow> bool" where
  "isPasswordCorrect ev u pw = bcrypt_compare ev pw (password u)"

definition generateAccessToken :: "env \<Rightarrow> user \<Rightarrow> string option" where
  "generateAccessToken ev u =
     jwt_sign ev
       \<lparr>payload_id = Some (uid u), payload_email = Some (email u),
        payload_username = Some (username u), payload_fullName = Some (fullName u)\<rparr>
       (ACCESS_TOKEN_SECRET ev) (ACCESS_TOKEN_EXPIRY ev)"

definition generateRefreshToken :: "env \<Rightarrow> user \<Rightarrow> string option" where
  "generateRefreshToken ev u =
     jwt_sign ev
       \<lparr>payload_id = Some (uid u), payload_email = None,
        payload_username = None, payload_fullName = None\<rparr>
       (REFRESH_TOKEN_SECRET ev) (REFRESH_TOKEN_EXPIRY ev)"

section \<open>Requests and responses\<close>

record upload_file =
  path :: "string option"

record request_files =
  files_avatar :: "upload_file list option"
  files_coverImage :: "upload_file list option"

text \<open>
  \<^verbatim>\<open>req.body\<close> is an object of string fields (a destructured name that is absent is
  undefined), \<^verbatim>\<open>req.cookies\<close> may be undefined, \<^verbatim>\<open>req.files\<close> and \<^verbatim>\<open>req.file\<close> are
  what the multipart middleware leaves, \<^verbatim>\<open>req.user\<close> what the authentication middleware
  attached.
\<close>

record request =
  req_body :: "(string \<times> string) list"
  req_cookies :: "(string \<times> string) list option"
  req_files :: "request_files option"
  req_file :: "upload_file option"
  req_user :: "user option"

text \<open>
  Modelled from the spec: \<^verbatim>\<open>utils/ApiResponse.js\<close> is not among the sources; the envelope
  of a success is \<^verbatim>\<open>{statusCode, data, message, success}\<close>.
\<close>

record api_response =
  statusCode :: nat
  data :: jsval
  message :: string
  success :: bool

definition ApiResponse :: "nat \<Rightarrow> jsval \<Rightarrow> string \<Rightarrow> api_response" where
  "ApiResponse c d m = \<lparr>statusCode = c, data = d, message = m, success = True\<rparr>"

record cookie_options =
  httpOnly :: bool
  secure :: bool

record response =
  status :: nat
  set_cookies :: "(string \<times> jsval \<times> cookie_options) list"
  cleared_cookies :: "(string \<times> cookie_options) list"
  json :: api_response

definition options :: cookie_options where
  "options = \<lparr>httpOnly = True, secure = True\<rparr>"

text \<open>Destructuring \<^verbatim>\<open>const { k } = obj\<close>: a name the object lacks is undefined.\<close>

definition field :: "js_object \<Rightarrow> string \<Rightarrow> jsval" where
  "field obj k = (case map_of obj k of None \<Rightarrow> JUndefined | Some v \<Rightarrow> v)"

section \<open>The controllers (\<^verbatim>\<open>user.controllers.js\<close>)\<close>

subsection \<open>Token generation\<close>

text \<open>
  \<^verbatim>\<open>generateAccessAndRefreshTokens\<close>: whatever is thrown inside \<^verbatim>\<open>try\<close> (a user that
  is not found, a signing that fails) becomes the \<^verbatim>\<open>ApiError\<close> 500. The result is the
  object \<^verbatim>\<open>{ accessToken, refreshToken }\<close>.
\<close>

definition tokens_failed :: error where
  "tokens_failed =
     ApiError 500 ''Something went wrong while generating access and refresh tokens.''"

definition generateAccessAndRefreshTokens ::
  "env \<Rightarrow> string \<Rightarrow> world \<Rightarrow> (error + js_object) \<times> world" where
  "generateAccessAndRefreshTokens ev userId w =
     (case findById (Some userId) (users w) of
        None \<Rightarrow> (Inl tokens_failed, w)
      | Some u \<Rightarrow>
          (case generateAccessToken ev u of
             None \<Rightarrow> (Inl tokens_failed, w)
           | Some accessToken \<Rightarrow>
               (case generateRefreshToken ev u of
                  None \<Rightarrow> (Inl tokens_failed, w)
                | Some refreshToken' \<Rightarrow>
                    (Inr [(''accessToken'', JStr accessToken),
                          (''refreshToken'', JStr refreshToken')],
                     save ev False (u\<lparr>refreshToken := Some refreshToken'\<rparr>) w))))"

subsection \<open>registerUser\<close>

text \<open>
  \<^verbatim>\<open>req.files?.avatar[0]?.path\<close>: undefined when \<^verbatim>\<open>req.files\<close> is; a TypeError when
  \<^verbatim>\<open>req.files\<close> is an object without \<^verbatim>\<open>avatar\<close> (the index is not guarded); undefined
  for an empty array.
\<close>

definition avatarLocalPath :: "request \<Rightarrow> error + string option" where
  "avatarLocalPath req =
     (case req_files req of
        None \<Rightarrow> Inr None
      | Some fs \<Rightarrow>
          (case files_avatar fs of
             None \<Rightarrow> Inl (TypeError ''Cannot read properties of undefined (reading 0)'')
           | Some [] \<Rightarrow> Inr None
           | Some (f # _) \<Rightarrow> Inr (path f)))"

text \<open>The guarded read of \<^verbatim>\<open>req.files.coverImage[0].path\<close>.\<close>

definition coverImageLocalPath :: "request \<Rightarrow> string option" where
  "coverImageLocalPath req =
     (case req_files req of
        None \<Rightarrow> None
      | Some fs \<Rightarrow>
          (case files_coverImage fs of
             None \<Rightarrow> None
           | Some [] \<Rightarrow> None
           | Some (f # _) \<Rightarrow> path f))"

text \<open>From the uploads to the response (lines 77 to 110).\<close>

definition register_create ::
  "env \<Rightarrow> request \<Rightarrow> string option \<Rightarrow> string \<Rightarrow> string \<Rightarrow> string option \<Rightarrow>
   string option \<Rightarrow> world \<Rightarrow> (error + response) \<times> world" where
  "register_create ev req fn em un pw avatarPath w =
     (case uploadOnCloudinary ev avatarPath w of
        (Inl e, w1) \<Rightarrow> (Inl e, w1)
      | (Inr avatar', w1) \<Rightarrow>
          (case uploadOnCloudinary ev (coverImageLocalPath req) w1 of
             (Inl e, w2) \<Rightarrow> (Inl e, w2)
           | (Inr coverImage', w2) \<Rightarrow>
               (case avatar' of
                  None \<Rightarrow> (Inl (ApiError 400 ''avatar is required.''), w2)
                | Some av \<Rightarrow>
                    (case User_create ev fn (url av) (Some (public_id av))
                            (Some (case coverImage' of None \<Rightarrow> [] | Some c \<Rightarrow> url c))
                            (Some (case coverImage' of None \<Rightarrow> [] | Some c \<Rightarrow> public_id c))
                            (toLowerCase un) em pw w2 of
                       (Inl e, w3) \<Rightarrow> (Inl e, w3)
                     | (Inr u, w3) \<Rightarrow>
                         (case findById (Some (uid u)) (users w3) of
                            None \<Rightarrow>
                              (Inl (ApiError 500
                                 ''Something went wrong while registering the user.''), w3)
                          | Some createdUser \<Rightarrow>
                              (Inr \<lparr>status = 201, set_cookies = [], cleared_cookies = [],
                                    json = ApiResponse 200
                                      (JObj (select [''password'', ''refreshToken'',
                                                     ''avatarId'', ''coverImageId''] createdUser))
                                      ''User registered successfully!''\<rparr>,
                               w3))))))"

text \<open>
  The checks before the uploads (lines 32 to 75). \<^verbatim>\<open>validator.isEmail\<close> and
  \<^verbatim>\<open>validator.isLowercase\<close> throw a TypeError on an undefined argument.
\<close>

definition registerUser :: "env \<Rightarrow> request \<Rightarrow> world \<Rightarrow> (error + response) \<times> world" where
  "registerUser ev req w =
     (let fn = map_of (req_body req) ''fullName'';
          em = map_of (req_body req) ''email'';
          un = map_of (req_body req) ''username'';
          pw = map_of (req_body req) ''password''
      in if some_blank_opt [fn, em, un, pw]
         then (Inl (ApiError 400 ''all fields are must.''), w)
         else
           (case em of
              None \<Rightarrow> (Inl (TypeError ''Expected a string but received a undefined''), w)
            | Some e \<Rightarrow>
                (if \<not> isEmail ev e then (Inl (ApiError 400 ''email is invalid.''), w)
                 else
                   (case un of
                      None \<Rightarrow>
                        (Inl (TypeError ''Expected a string but received a undefined''), w)
                    | Some n \<Rightarrow>
                        (if \<not> isLowercase n
                         then (Inl (ApiError 400 ''username should be lowercase.''), w)
                         else if findOne_or un em (users w) \<noteq> None
                         then (Inl (ApiError 409 ''email or username already in use.''), w)
                         else
                           (case avatarLocalPath req of
                              Inl err \<Rightarrow> (Inl err, w)
                            | Inr avatarPath \<Rightarrow>
                                (if \<not> truthy avatarPath
                                 then (Inl (ApiError 400 ''avatar is required.''), w)
                                 else register_create ev req fn e n pw avatarPath w)))))))"

subsection \<open>loginUser\<close>

text \<open>
  The blank check
  \<^verbatim>\<open>(username && [username, password].some(blank)) || (email && [email, password].some(blank))\<close>.
\<close>

definition login_blank ::
  "string option \<Rightarrow> string option \<Rightarrow> string option \<Rightarrow> error + bool" where
  "login_blank un em pw =
     (case (if truthy un then some_blank [un, pw] else Inr False) of
        Inl e \<Rightarrow> Inl e
      | Inr True \<Rightarrow> Inr True
      | Inr False \<Rightarrow> (if truthy em then some_blank [em, pw] else Inr False))"

text \<open>
  The format check
  \<^verbatim>\<open>email ? isEmail(email) : false || username ? isLowercase(username) : false\<close>, which
  JavaScript reads as
  \<^verbatim>\<open>email ? isEmail(email) : ((false || username) ? isLowercase(username) : false)\<close>.
\<close>

definition login_format :: "env \<Rightarrow> string option \<Rightarrow> string option \<Rightarrow> bool" where
  "login_format ev un em =
     (case em of
        Some e \<Rightarrow>
          (if e \<noteq> [] then isEmail ev e
           else (case un of Some n \<Rightarrow> (if n \<noteq> [] then isLowercase n else False) | None \<Rightarrow> False))
      | None \<Rightarrow>
          (case un of Some n \<Rightarrow> (if n \<noteq> [] then isLowercase n else False) | None \<Rightarrow> False))"

text \<open>From the password check to the response (lines 150 to 188).\<close>

definition login_session ::
  "env \<Rightarrow> user \<Rightarrow> string option \<Rightarrow> world \<Rightarrow> (error + response) \<times> world" where
  "login_session ev existingUser pw w =
     (case pw of
        None \<Rightarrow> (Inl (TypeError ''data and hash arguments required''), w)
      | Some p \<Rightarrow>
          (if \<not> isPasswordCorrect ev existingUser p
           then (Inl (ApiError 400 ''password incorrect.''), w)
           else
             (case generateAccessAndRefreshTokens ev (uid existingUser) w of
                (Inl e, w1) \<Rightarrow> (Inl e, w1)
              | (Inr tokens, w1) \<Rightarrow>
                  (Inr \<lparr>status = 200,
                        set_cookies =
                          [(''accessToken'', field tokens ''accessToken'', options),
                           (''refreshToken'', field tokens ''refreshToken'', options)],
                        cleared_cookies = [],
                        json = ApiResponse 200
                          (JObj [(''user'',
                                  select_opt [''password'', ''refreshToken'',
                                              ''avatarId'', ''coverImageId'']
                                    (findById (Some (uid existingUser)) (users w1))),
                                 (''accessToken'', field tokens ''accessToken''),
                                 (''refreshToken'', field tokens ''refreshToken'')])
                          ''user successfully logged in.''\<rparr>,
                   w1))))"

definition loginUser :: "env \<Rightarrow> request \<Rightarrow> world \<Rightarrow> (error + response) \<times> world" where
  "loginUser ev req w =
     (let em = map_of (req_body req) ''email'';
          un = map_of (req_body req) ''username'';
          pw = map_of (req_body req) ''password''
      in if \<not> truthy un \<and> \<not> truthy em
         then (Inl (ApiError 400 ''username or email is required.''), w)
         else
           (case login_blank un em pw of
              Inl e \<Rightarrow> (Inl e, w)
            | Inr True \<Rightarrow> (Inl (ApiError 400 ''all fields are must''), w)
            | Inr False \<Rightarrow>
                (if \<not> login_format ev un em
                 then (Inl (ApiError 400 ''email or username is invalid.''), w)
                 else
                   (case findOne_or un em (users w) of
                      None \<Rightarrow> (Inl (ApiError 404 ''user does not exist.''), w)
                    | Some existingUser \<Rightarrow> login_session ev existingUser pw w))))"

text \<open>
  A superseded revision of the controllers (\<^verbatim>\<open>part_001\<close>, lines 111 to 131) checks
  \<^verbatim>\<open>!username || !email\<close>, then
  \<^verbatim>\<open>([email, password] || [username, password]).some(blank)\<close>, which is the check of
  \<^verbatim>\<open>[email, password]\<close>, then
  \<^verbatim>\<open>!validator.isEmail(email) || !validator.isLowercase(username)\<close>. Its checks, with
  the error they throw if any, are embedded for comparison.
\<close>

definition login_checks_rev1 :: "env \<Rightarrow> request \<Rightarrow> error option" where
  "login_checks_rev1 ev req =
     (case map_of (req_body req) ''username'' of
        None \<Rightarrow> Some (ApiError 400 ''username or email is required.'')
      | Some n \<Rightarrow>
          (case map_of (req_body req) ''email'' of
             None \<Rightarrow> Some (ApiError 400 ''username or email is required.'')
           | Some e \<Rightarrow>
               (if n = [] then Some (ApiError 400 ''username or email is required.'')
                else if e = [] then Some (ApiError 400 ''username or email is required.'')
                else
                  (case some_blank [Some e, map_of (req_body req) ''password''] of
                     Inl err \<Rightarrow> Some err
                   | Inr True \<Rightarrow> Some (ApiError 400 ''all fields are must'')
                   | Inr False \<Rightarrow>
                       (if isEmail ev e \<and> isLowercase n then None
                        else Some (ApiError 400 ''email or username is invalid.''))))))"

subsection \<open>logoutUser\<close>

text \<open>
  \<^verbatim>\<open>$set: { refreshToken: undefined }\<close>: with \<open>omitUndefined\<close> the mapper drops the key and
  the update changes nothing, otherwise the field is cleared.
\<close>

definition logoutUser :: "env \<Rightarrow> request \<Rightarrow> world \<Rightarrow> (error + response) \<times> world" where
  "logoutUser ev req w =
     (case req_user req of
        None \<Rightarrow> (Inl (TypeError ''Cannot read properties of undefined (reading _id)''), w)
      | Some ru \<Rightarrow>
          (Inr \<lparr>status = 200, set_cookies = [],
                cleared_cookies = [(''accessToken'', options), (''refreshToken'', options)],
                json = ApiResponse 200 (JObj []) ''user logged out successfully.''\<rparr>,
           snd (findByIdAndUpdate (Some (uid ru))
                  (\<lambda>u. if omitUndefined ev then u else u\<lparr>refreshToken := None\<rparr>) w)))"

subsection \<open>refreshAccessToken\<close>

text \<open>\<^verbatim>\<open>req.cookies?.refreshToken || req.body.refreshToken\<close>\<close>

definition incomingRefreshToken :: "request \<Rightarrow> string option" where
  "incomingRefreshToken req =
     js_or (case req_cookies req of None \<Rightarrow> None | Some c \<Rightarrow> map_of c ''refreshToken'')
           (map_of (req_body req) ''refreshToken'')"

text \<open>\<^verbatim>\<open>catch (error) { throw new ApiError(401, error?.message || "invalid refresh token.") }\<close>\<close>

definition refresh_catch :: "error \<Rightarrow> error" where
  "refresh_catch e =
     ApiError 401 (if error_message e = [] then ''invalid refresh token.'' else error_message e)"

text \<open>
  The body of \<^verbatim>\<open>try\<close>. The object that \<^verbatim>\<open>generateAccessAndRefreshTokens\<close> returns is
  destructured as \<^verbatim>\<open>{ accessToken, newRefreshToken }\<close>.
\<close>

definition refresh_try ::
  "env \<Rightarrow> string \<Rightarrow> world \<Rightarrow> (error + response) \<times> world" where
  "refresh_try ev token w =
     (case jwt_verify ev token (REFRESH_TOKEN_SECRET ev) of
        Inl m \<Rightarrow> (Inl (JwtError m), w)
      | Inr decodedToken \<Rightarrow>
          (case findById (payload_id decodedToken) (users w) of
             None \<Rightarrow> (Inl (ApiError 401 ''invalid refresh token.''), w)
           | Some u \<Rightarrow>
               (if Some token \<noteq> refreshToken u
                then (Inl (ApiError 401 ''refresh token is expired or used.''), w)
                else
                  (case generateAccessAndRefreshTokens ev (uid u) w of
                     (Inl e, w1) \<Rightarrow> (Inl e, w1)
                   | (Inr tokens, w1) \<Rightarrow>
                       (Inr \<lparr>status = 200,
                             set_cookies =
                               [(''accessToken'', field tokens ''accessToken'', options),
                                (''refreshToken'', field tokens ''newRefreshToken'', options)],
                             cleared_cookies = [],
                             json = ApiResponse 200
                               (JObj [(''accessToken'', field tokens ''accessToken''),
                                      (''refreshToken'', field tokens ''newRefreshToken'')])
                               ''access token refreshed.''\<rparr>,
                        w1)))))"

definition refreshAccessToken :: "env \<Rightarrow> request \<Rightarrow> world \<Rightarrow> (error + response) \<times> world" where
  "refreshAccessToken ev req w =
     (case incomingRefreshToken req of
        None \<Rightarrow> (Inl (ApiError 401 ''unauthorized request.''), w)
      | Some token \<Rightarrow>
          (if token = [] then (Inl (ApiError 401 ''unauthorized request.''), w)
           else
             (case refresh_try ev token w of
                (Inl e, w1) \<Rightarrow> (Inl (refresh_catch e), w1)
              | (Inr res, w1) \<Rightarrow> (Inr res, w1))))"

subsection \<open>updateUserDetails\<close>

text \<open>
  The setters of the schema also run on the values of an update; the unique index on
  \<^verbatim>\<open>email\<close> refuses the address of another document.
\<close>

definition updateUserDetails :: "env \<Rightarrow> request \<Rightarrow> world \<Rightarrow> (error + response) \<times> world" where
  "updateUserDetails ev req w =
     (let fn = map_of (req_body req) ''fullName'';
          em = map_of (req_body req) ''email''
      in case fn of
           None \<Rightarrow> (Inl (ApiError 401 ''fullname and email are required.''), w)
         | Some f \<Rightarrow>
             (case em of
                None \<Rightarrow> (Inl (ApiError 401 ''fullname and email are required.''), w)
              | Some e \<Rightarrow>
                  (if f = [] then (Inl (ApiError 401 ''fullname and email are required.''), w)
                   else if e = []
                   then (Inl (ApiError 401 ''fullname and email are required.''), w)
                   else if findById (map_option uid (req_user req)) (users w) \<noteq> None
                           \<and> list_ex (\<lambda>x. email x = trim (toLowerCase e)
                                            \<and> Some (uid x) \<noteq> map_option uid (req_user req))
                                 (users w)
                   then (Inl (StoreError ''E11000 duplicate key error''), w)
                   else
                     (case findByIdAndUpdate (map_option uid (req_user req))
                             (\<lambda>u. u\<lparr>fullName := trim f, email := trim (toLowerCase e)\<rparr>) w of
                        (user', w1) \<Rightarrow>
                          (Inr \<lparr>status = 200, set_cookies = [], cleared_cookies = [],
                                json = ApiResponse 200
                                  (JObj [(''user'',
                                          select_opt [''password'', ''refreshToken''] user')])
                                  ''user updated successfully.''\<rparr>,
                           w1)))))"

subsection \<open>updateUserAvatar\<close>

definition updateUserAvatar :: "env \<Rightarrow> request \<Rightarrow> world \<Rightarrow> (error + response) \<times> world" where
  "updateUserAvatar ev req w =
     (let newAvatarLocalPath = (case req_file req of None \<Rightarrow> None | Some f \<Rightarrow> path f)
      in if \<not> truthy newAvatarLocalPath
         then (Inl (ApiError 400 ''Avatar file is missing.''), w)
         else
           (case uploadOnCloudinary ev newAvatarLocalPath w of
              (Inl e, w1) \<Rightarrow> (Inl e, w1)
            | (Inr None, w1) \<Rightarrow>
                (Inl (ApiError 400 ''Error while uploading a new avatar to cloudinary.''), w1)
            | (Inr (Some newAvatar), w1) \<Rightarrow>
                (case findByIdAndUpdate (map_option uid (req_user req))
                        (\<lambda>u. u\<lparr>avatar := url newAvatar,
                               avatarId := Some (public_id newAvatar)\<rparr>) w1 of
                   (None, w2) \<Rightarrow> (Inl (ApiError 401 ''unauthorized request.''), w2)
                 | (Some user', w2) \<Rightarrow>
                     (let oldAvatarId =
                            (case req_user req of None \<Rightarrow> None | Some ru \<Rightarrow> avatarId ru)
                      in if \<not> truthy oldAvatarId
                         then (Inl (ApiError 400 ''unauthorized request.''), w2)
                         else
                           (case deleteOnCloudinary ev oldAvatarId w2 of
                              (None, w3) \<Rightarrow>
                                (Inl (ApiError 400
                                   ''Error while deleting the current avatar''), w3)
                            | (Some _, w3) \<Rightarrow>
                                (Inr \<lparr>status = 200, set_cookies = [], cleared_cookies = [],
                                      json = ApiResponse 200
                                        (JObj [(''data'',
                                                JObj (select [''password'', ''refreshToken'',
                                                              ''avatarId'', ''coverImageId'']
                                                        user'))])
                                        ''avatar successfully updated.''\<rparr>,
                                 w3))))))"

subsection \<open>changeCurrentPassword\<close>

text \<open>
  \<^verbatim>\<open>bcrypt.compare\<close> and \<^verbatim>\<open>bcrypt.hash\<close> throw on an undefined argument; the new
  password is hashed by the \<^verbatim>\<open>pre("save")\<close> hook.
\<close>

definition changeCurrentPassword :: "env \<Rightarrow> request \<Rightarrow> world \<Rightarrow> (error + response) \<times> world" where
  "changeCurrentPassword ev req w =
     (case findById (map_option uid (req_user req)) (users w) of
        None \<Rightarrow> (Inl (ApiError 400 ''unauthorized request.''), w)
      | Some u \<Rightarrow>
          (case map_of (req_body req) ''oldPassword'' of
             None \<Rightarrow> (Inl (TypeError ''data and hash arguments required''), w)
           | Some oldPassword \<Rightarrow>
               (if \<not> isPasswordCorrect ev u oldPassword
                then (Inl (ApiError 401 ''password incorrect.''), w)
                else
                  (case map_of (req_body req) ''newPassword'' of
                     None \<Rightarrow> (Inl (TypeError ''data and salt arguments required''), w)
                   | Some newPassword \<Rightarrow>
                       (Inr \<lparr>status = 200, set_cookies = [], cleared_cookies = [],
                             json = ApiResponse 200 (JObj []) ''password updated successfully.''\<rparr>,
                        save ev True (u\<lparr>password := newPassword\<rparr>) w)))))"

section \<open>A concrete environment\<close>

text \<open>
  An environment and a store on which the controllers can be evaluated. A token is the
  signing secret, one character for the time of issue, and the user's id; a hash is the
  password behind a dollar sign; the remote host refuses the file \<^verbatim>\<open>/tmp/bad.png\<close> and
  the deletion of the asset \<^verbatim>\<open>id/locked\<close>; the mapper drops undefined values from an
  update.
\<close>

definition sample_env :: "char \<Rightarrow> env" where
  "sample_env clock =
     \<lparr>ACCESS_TOKEN_SECRET = ''as'', ACCESS_TOKEN_EXPIRY = ''1d'',
      REFRESH_TOKEN_SECRET = ''rs'', REFRESH_TOKEN_EXPIRY = ''10d'',
      jwt_sign = (\<lambda>p s e. case payload_id p of None \<Rightarrow> None | Some i \<Rightarrow> Some (s @ clock # i)),
      jwt_verify = (\<lambda>t s.
         if take (length s) t = s \<and> length s < length t
         then Inr \<lparr>payload_id = Some (drop (Suc (length s)) t), payload_email = None,
                   payload_username = None, payload_fullName = None\<rparr>
         else Inl ''invalid signature''),
      bcrypt_hash = (\<lambda>p c. CHR ''$'' # p),
      bcrypt_compare = (\<lambda>p h. h = CHR ''$'' # p),
      isEmail = (\<lambda>s. CHR ''@'' \<in> set s),
      cloud_upload = (\<lambda>p. if p = ''/tmp/bad.png'' then None
                           else Some \<lparr>url = ''cdn/'' @ p, public_id = ''id/'' @ p\<rparr>),
      cloud_destroy = (\<lambda>i. if i = ''id/locked'' then None else Some \<lparr>result = ''ok''\<rparr>),
      new_ObjectId = ''u2'',
      omitUndefined = True\<rparr>"

definition ann :: user where
  "ann = \<lparr>uid = ''u1'', username = ''annlee'', email = ''ann@x.com'', fullName = ''Ann Lee'',
          avatar = ''cdn/a.png'', avatarId = Some ''id/a.png'',
          coverImage = Some [], coverImageId = Some [],
          watchHistory = [], password = ''$secret123'', refreshToken = Some ''rsAu1''\<rparr>"

definition sample_world :: world where
  "sample_world = \<lparr>users = [ann], local_files = [''/tmp/new.png'', ''/tmp/bad.png''], trace = []\<rparr>"

definition request_with :: "(string \<times> string) list \<Rightarrow> request" where
  "request_with b = \<lparr>req_body = b, req_cookies = None, req_files = None, req_file = None,
                     req_user = None\<rparr>"

definition cookie_request :: "string \<Rightarrow> request" where
  "cookie_request t = (request_with [])\<lparr>req_cookies := Some [(''refreshToken'', t)]\<rparr>"

definition register_request :: "request_files option \<Rightarrow> request" where
  "register_request fs =
     (request_with [(''fullName'', ''Bob Ray''), (''email'', ''bob@x.com''),
                    (''username'', ''bobray''), (''password'', ''hunter22'')])
       \<lparr>req_files := fs\<rparr>"

definition avatar_upload :: "string \<Rightarrow> request_files" where
  "avatar_upload p = \<lparr>files_avatar = Some [\<lparr>path = Some p\<rparr>], files_coverImage = None\<rparr>"

definition avatar_request :: "string \<Rightarrow> user \<Rightarrow> request" where
  "avatar_request p ru = (request_with [])\<lparr>req_file := Some \<lparr>path = Some p\<rparr>, req_user := Some ru\<rparr>"

definition locked_ann :: user where
  "locked_ann = ann\<lparr>avatarId := Some ''id/locked''\<rparr>"

section \<open>Evaluation rules and store lemmas\<close>

lemmas sample_defs =
  sample_env_def ann_def locked_ann_def sample_world_def request_with_def cookie_request_def
  register_request_def avatar_upload_def avatar_request_def

lemmas controller_defs =
  refreshAccessToken_def refresh_try_def refresh_catch_def incomingRefreshToken_def js_or_def
  truthy_def findById_def findOne_or_def schema_setter_def generateAccessAndRefreshTokens_def
  generateAccessToken_def generateRefreshToken_def save_def emit_def field_def
  loginUser_def login_blank_def login_format_def login_session_def isPasswordCorrect_def
  logoutUser_def findByIdAndUpdate_def updateUserDetails_def changeCurrentPassword_def
  trim_def is_space_def isLowercase_def toLowerCase_def toLowerCase_char_def
  registerUser_def register_create_def avatarLocalPath_def coverImageLocalPath_def
  uploadOnCloudinary_def upload_catch_def unlinkSync_def updateUserAvatar_def
  deleteOnCloudinary_def User_create_def pre_save_def select_def to_object_def opt_field_def
  ApiResponse_def select_opt_def

lemma find_update_first:
  "(\<And>x. P x \<Longrightarrow> P (f x)) \<Longrightarrow> find P (update_first P f xs) = map_option f (find P xs)"
  by (induction xs) auto

lemma update_first_id: "update_first P (\<lambda>u. u) xs = xs"
  by (induction xs) auto

lemma find_append_new: "\<not> list_ex P xs \<Longrightarrow> P x \<Longrightarrow> find P (xs @ [x]) = Some x"
  by (induction xs) auto

lemma findById_uid: "findById (Some i) us = Some u \<Longrightarrow> uid u = i"
  by (auto simp: findById_def find_Some_iff)

lemma findById_update_first:
  assumes "\<And>x. uid (f x) = uid x"
  shows "findById (Some i) (update_first (\<lambda>x. uid x = i) f us)
           = map_option f (findById (Some i) us)"
  unfolding findById_def using assms by (simp add: find_update_first)

lemma findByIdAndUpdate_found:
  assumes "findById (Some i) (users w) = Some u"
  shows "findByIdAndUpdate (Some i) f w =
           (Some (f u),
            emit (StoreWrite i) (w\<lparr>users := update_first (\<lambda>x. uid x = i) f (users w)\<rparr>))"
  using assms findById_uid[OF assms] by (simp add: findByIdAndUpdate_def)

lemma save_keep_password [simp]: "pre_save ev False u = u"
  by (simp add: pre_save_def)


lemma trim_Nil [simp]: "trim [] = []"
  by (simp add: trim_def)

lemma some_blank_error: "some_blank fs = Inl e \<Longrightarrow> \<exists>m. e = TypeError m"
  by (induction fs rule: some_blank.induct) (auto split: if_splits)

section \<open>The media uploader: temporary files\<close>

lemma unlinkSync_users: "unlinkSync p w = (r, w') \<Longrightarrow> users w' = users w"
  by (auto simp: unlinkSync_def emit_def split: if_splits)

lemma unlinkSync_error: "unlinkSync p w = (Inl e, w') \<Longrightarrow> \<exists>m. e = FsError m"
  by (auto simp: unlinkSync_def split: if_splits)

lemma upload_catch_users: "upload_catch p w = (r, w') \<Longrightarrow> users w' = users w"
  by (auto simp: upload_catch_def split: prod.splits sum.splits dest: unlinkSync_users)

lemma uploadOnCloudinary_users: "uploadOnCloudinary ev p w = (r, w') \<Longrightarrow> users w' = users w"
  by (auto simp: uploadOnCloudinary_def emit_def
           split: option.splits if_splits prod.splits sum.splits
           dest!: unlinkSync_users upload_catch_users)

lemma uploadOnCloudinary_error:
  "uploadOnCloudinary ev p w = (Inl e, w') \<Longrightarrow> \<exists>m. e = FsError m"
  by (auto simp: uploadOnCloudinary_def upload_catch_def
           split: option.splits if_splits prod.splits sum.splits dest: unlinkSync_error)

lemma uploadOnCloudinary_present:
  assumes "p \<noteq> []" and "p \<in> set (local_files w)"
  shows "uploadOnCloudinary ev (Some p) w =
           (Inr (cloud_upload ev p),
            w\<lparr>local_files := removeAll p (local_files w),
              trace := trace w @ [Upload p, Unlink p]\<rparr>)"
  using assms
  by (cases "cloud_upload ev p")
     (simp_all add: uploadOnCloudinary_def upload_catch_def unlinkSync_def emit_def)

text \<open>The superseded revision leaves the temporary file in place when the upload succeeds.\<close>

lemma upload_rev1_keeps_file_on_success:
  assumes "p \<noteq> []" and "cloud_upload ev p = Some r"
  shows "uploadOnCloudinary_rev1 ev (Some p) w = (Inr (Some r), emit (Upload p) w)"
  using assms by (simp add: uploadOnCloudinary_rev1_def)

text \<open>
  Claim C6. For every call of \<^verbatim>\<open>uploadOnCloudinary\<close> with a path that is present (not
  undefined, not empty) and names an existing temporary file, the call returns what the
  remote upload returned (the response when it succeeded, null when it failed), the file is
  gone afterwards, and exactly one unlink of that file is added to the effects, on the
  success path and on the failure path alike.
\<close>

theorem upload_unlinks_once:
  assumes "p \<noteq> []" and "p \<in> set (local_files w)"
  shows "uploadOnCloudinary ev (Some p) w =
           (Inr (cloud_upload ev p),
            w\<lparr>local_files := removeAll p (local_files w),
              trace := trace w @ [Upload p, Unlink p]\<rparr>)
         \<and> p \<notin> set (local_files (snd (uploadOnCloudinary ev (Some p) w)))
         \<and> length (filter (\<lambda>e. e = Unlink p) (trace (snd (uploadOnCloudinary ev (Some p) w))))
             = Suc (length (filter (\<lambda>e. e = Unlink p) (trace w)))"
  using assms by (simp add: uploadOnCloudinary_present)

theorem upload_unlinks_once_witness:
  "uploadOnCloudinary (sample_env CHR ''B'') (Some ''/tmp/new.png'') sample_world
     = (Inr (Some \<lparr>url = ''cdn//tmp/new.png'', public_id = ''id//tmp/new.png''\<rparr>),
        \<lparr>users = [ann], local_files = [''/tmp/bad.png''],
         trace = [Upload ''/tmp/new.png'', Unlink ''/tmp/new.png'']\<rparr>)
   \<and> uploadOnCloudinary (sample_env CHR ''B'') (Some ''/tmp/bad.png'') sample_world
     = (Inr None,
        \<lparr>users = [ann], local_files = [''/tmp/new.png''],
         trace = [Upload ''/tmp/bad.png'', Unlink ''/tmp/bad.png'']\<rparr>)"
proof -
  have a: "''/tmp/new.png'' \<noteq> []" "''/tmp/bad.png'' \<noteq> []" by simp_all
  have b: "''/tmp/new.png'' \<in> set (local_files sample_world)"
          "''/tmp/bad.png'' \<in> set (local_files sample_world)"
    by (simp_all add: sample_world_def)
  from upload_unlinks_once[OF a(1) b(1), of "sample_env CHR ''B''"]
       upload_unlinks_once[OF a(2) b(2), of "sample_env CHR ''B''"]
  show ?thesis by (simp add: sample_defs)
qed

section \<open>Refresh tokens: rotation and logout\<close>

lemma tokens_cases:
  "generateAccessAndRefreshTokens ev i w = (r, w1) \<Longrightarrow>
     (r = Inl tokens_failed \<and> w1 = w) \<or>
     (\<exists>u a t. findById (Some i) (users w) = Some u \<and> generateAccessToken ev u = Some a
            \<and> generateRefreshToken ev u = Some t
            \<and> r = Inr [(''accessToken'', JStr a), (''refreshToken'', JStr t)]
            \<and> w1 = save ev False (u\<lparr>refreshToken := Some t\<rparr>) w)"
  by (auto simp: generateAccessAndRefreshTokens_def split: option.splits)

lemma tokens_error:
  "generateAccessAndRefreshTokens ev i w = (Inl e, w1) \<Longrightarrow> e = tokens_failed"
  by (auto dest: tokens_cases)

lemma refresh_stale:
  assumes "incomingRefreshToken req = Some t" and "t \<noteq> []"
    and "jwt_verify ev t (REFRESH_TOKEN_SECRET ev) = Inr d" and "payload_id d = Some i"
    and "findById (Some i) (users w) = Some u" and "refreshToken u \<noteq> Some t"
  shows "refreshAccessToken ev req w
           = (Inl (ApiError 401 ''refresh token is expired or used.''), w)"
  using assms by (auto simp: refreshAccessToken_def refresh_try_def refresh_catch_def)






text \<open>
  Claim C4. A refresh call that passes every check signs a new pair and stores the new
  refresh token, but the response does not carry it: the controller destructures the name
  \<^verbatim>\<open>newRefreshToken\<close> from an object whose keys are \<^verbatim>\<open>accessToken\<close> and
  \<^verbatim>\<open>refreshToken\<close>, so the cookie and the body field \<^verbatim>\<open>refreshToken\<close> are undefined.
  Evaluated on the stored token of the sample user: the store holds the new token
  \<^verbatim>\<open>rsBu1\<close>, the response holds none.
\<close>

theorem refresh_response_omits_new_refresh_token:
  "fst (refreshAccessToken (sample_env CHR ''B'') (cookie_request ''rsAu1'') sample_world)
     = Inr \<lparr>status = 200,
            set_cookies = [(''accessToken'', JStr ''asBu1'', options),
                           (''refreshToken'', JUndefined, options)],
            cleared_cookies = [],
            json = ApiResponse 200 (JObj [(''accessToken'', JStr ''asBu1''),
                                          (''refreshToken'', JUndefined)])
                     ''access token refreshed.''\<rparr>
   \<and> users (snd (refreshAccessToken (sample_env CHR ''B'') (cookie_request ''rsAu1'') sample_world))
     = [ann\<lparr>refreshToken := Some ''rsBu1''\<rparr>]"
  by (simp add: sample_defs controller_defs)

text \<open>The same for every successful refresh call.\<close>

lemma refresh_success_response:
  assumes "refreshAccessToken ev req w = (Inr res, w1)"
  shows "\<exists>a. set_cookies res = [(''accessToken'', JStr a, options),
                                 (''refreshToken'', JUndefined, options)]
            \<and> data (json res) = JObj [(''accessToken'', JStr a), (''refreshToken'', JUndefined)]"
proof -
  from assms obtain t i toks where
    g: "generateAccessAndRefreshTokens ev i w = (Inr toks, w1)"
    and r: "res = \<lparr>status = 200,
                   set_cookies = [(''accessToken'', field toks ''accessToken'', options),
                                  (''refreshToken'', field toks ''newRefreshToken'', options)],
                   cleared_cookies = [],
                   json = ApiResponse 200
                            (JObj [(''accessToken'', field toks ''accessToken''),
                                   (''refreshToken'', field toks ''newRefreshToken'')])
                            ''access token refreshed.''\<rparr>"
    by (auto simp: refreshAccessToken_def refresh_try_def
             split: option.splits if_splits prod.splits sum.splits)
  from tokens_cases[OF g] obtain a t' where
    "toks = [(''accessToken'', JStr a), (''refreshToken'', JStr t')]" by auto
  with r show ?thesis by (simp add: field_def ApiResponse_def)
qed

text \<open>
  When the mapper drops undefined values from an update (\<open>omitUndefined\<close>), the update of
  \<^verbatim>\<open>logoutUser\<close> is empty and the stored token stays.
\<close>

lemma logout_keeps_token_when_undefined_is_omitted:
  assumes "omitUndefined ev"
  shows "users (snd (logoutUser ev req w)) = users w"
  using assms
  by (auto simp: logoutUser_def findByIdAndUpdate_def emit_def update_first_id split: option.splits)

text \<open>
  A mapper that writes the undefined value of \<^verbatim>\<open>$set\<close> (it does not drop the key)
  clears the field, and every later refresh call with a token that verifies for this user
  then fails the stored-token comparison.
\<close>

lemma logout_clears_token_when_undefined_is_written:
  assumes "\<not> omitUndefined ev" and "req_user req = Some ru"
    and "findById (Some (uid ru)) (users w) = Some u"
  shows "\<not> isl (fst (logoutUser ev req w))
       \<and> map_option refreshToken (findById (Some (uid ru)) (users (snd (logoutUser ev req w))))
           = Some None
       \<and> (\<forall>ev2 req2 t d.
            incomingRefreshToken req2 = Some t \<and> t \<noteq> []
            \<and> jwt_verify ev2 t (REFRESH_TOKEN_SECRET ev2) = Inr d \<and> payload_id d = Some (uid ru)
            \<longrightarrow> refreshAccessToken ev2 req2 (snd (logoutUser ev req w))
                  = (Inl (ApiError 401 ''refresh token is expired or used.''),
                     snd (logoutUser ev req w)))"
proof -
  let ?w1 = "snd (logoutUser ev req w)"
  have f: "findById (Some (uid ru)) (users ?w1) = Some (u\<lparr>refreshToken := None\<rparr>)"
    using assms findById_uid[OF assms(3)]
    by (simp add: logoutUser_def findByIdAndUpdate_def emit_def findById_update_first)
  have "\<not> isl (fst (logoutUser ev req w))" using assms by (simp add: logoutUser_def)
  moreover have "map_option refreshToken (findById (Some (uid ru)) (users ?w1)) = Some None"
    using f by simp
  moreover have "refreshAccessToken ev2 req2 ?w1
                  = (Inl (ApiError 401 ''refresh token is expired or used.''), ?w1)"
    if "incomingRefreshToken req2 = Some t \<and> t \<noteq> []
            \<and> jwt_verify ev2 t (REFRESH_TOKEN_SECRET ev2) = Inr d \<and> payload_id d = Some (uid ru)"
    for ev2 req2 t d
    using that f by (intro refresh_stale[where u = "u\<lparr>refreshToken := None\<rparr>"]) auto
  ultimately show ?thesis by blast
qed

text \<open>
  Claim C2. The controller, whose comment is "delete the refreshToken from the database",
  sends \<^verbatim>\<open>$set: { refreshToken: undefined }\<close>. The mapper drops the undefined value, the
  update is empty, and the logout that completes successfully leaves the stored token in
  place: the token that was valid before the logout passes the stored-token comparison of
  the next refresh call, which succeeds and rotates it. Evaluated for the sample user.
\<close>

theorem logout_leaves_refresh_token_valid:
  "refreshToken ann = Some ''rsAu1''
   \<and> \<not> isl (fst (logoutUser (sample_env CHR ''B'') ((request_with [])\<lparr>req_user := Some ann\<rparr>)
                   sample_world))
   \<and> map refreshToken
        (users (snd (logoutUser (sample_env CHR ''B'')
                       ((request_with [])\<lparr>req_user := Some ann\<rparr>) sample_world)))
       = [Some ''rsAu1'']
   \<and> \<not> isl (fst (refreshAccessToken (sample_env CHR ''C'') (cookie_request ''rsAu1'')
                   (snd (logoutUser (sample_env CHR ''B'')
                           ((request_with [])\<lparr>req_user := Some ann\<rparr>) sample_world))))
   \<and> map refreshToken
        (users (snd (refreshAccessToken (sample_env CHR ''C'') (cookie_request ''rsAu1'')
                       (snd (logoutUser (sample_env CHR ''B'')
                               ((request_with [])\<lparr>req_user := Some ann\<rparr>) sample_world)))))
       = [Some ''rsCu1'']"
  by (simp add: sample_defs controller_defs update_first_id)

section \<open>Login\<close>

lemma login_blank_error: "login_blank un em pw = Inl e \<Longrightarrow> \<exists>m. e = TypeError m"
  by (auto simp: login_blank_def split: if_splits sum.splits bool.splits dest: some_blank_error)

lemma login_session_error:
  "fst (login_session ev u pw w) \<noteq> Inl (ApiError 400 ''username or email is required.'')"
  by (auto simp: login_session_def tokens_failed_def split: option.splits prod.splits sum.splits
           dest!: tokens_error)

text \<open>
  The lookup casts the identifiers of the request: an address in capitals finds the user
  stored under the lowercase address, for the login as for the uniqueness check of the
  registration.
\<close>

lemma findOne_or_casts_filter:
  "findOne_or None (Some ''ANN@X.COM'') (users sample_world) = Some ann
   \<and> findOne_or (Some '' annlee '') None (users sample_world) = Some ann
   \<and> findOne_or (Some ''ann'') None (users sample_world) = None"
  by (simp add: sample_defs controller_defs)

lemma login_with_capital_email:
  "\<not> isl (fst (loginUser (sample_env CHR ''B'')
                  (request_with [(''email'', ''ANN@X.COM''), (''password'', ''secret123'')])
                  sample_world))"
  by (simp add: sample_defs controller_defs)

text \<open>
  Claim C3. A login whose identifier matches a user and whose password does not verify
  fails, issues no token and persists nothing, but the status of the error is 400, not
  401. Evaluated for the sample user with a wrong password.
\<close>

theorem login_wrong_password_status:
  "loginUser (sample_env CHR ''B'')
      (request_with [(''username'', ''annlee''), (''password'', ''wrong'')]) sample_world
     = (Inl (ApiError 400 ''password incorrect.''), sample_world)"
  by (simp add: sample_defs controller_defs)

text \<open>
  For every such login: the world is unchanged, the result is an error, and the error is
  never an \<^verbatim>\<open>ApiError\<close> 401.
\<close>

lemma login_wrong_password:
  assumes "findOne_or (map_of (req_body req) ''username'') (map_of (req_body req) ''email'') (users w)
             = Some u"
    and "map_of (req_body req) ''password'' = Some p"
    and "\<not> isPasswordCorrect ev u p"
  shows "snd (loginUser ev req w) = w"
    and "isl (fst (loginUser ev req w))"
    and "fst (loginUser ev req w) \<noteq> Inl (ApiError 401 m)"
  using assms
  by (auto simp: loginUser_def login_session_def Let_def split: sum.splits bool.splits
           dest: login_blank_error)

text \<open>
  The sibling path: \<^verbatim>\<open>changeCurrentPassword\<close> answers the same failed password check
  with the same message and status 401.
\<close>

theorem change_password_wrong_password_status:
  "changeCurrentPassword (sample_env CHR ''B'')
      ((request_with [(''oldPassword'', ''wrong''), (''newPassword'', ''next'')])
         \<lparr>req_user := Some ann\<rparr>) sample_world
     = (Inl (ApiError 401 ''password incorrect.''), sample_world)"
  by (simp add: sample_defs controller_defs)

text \<open>
  The superseded revision asks for both identifiers: its first error is thrown exactly when
  one of them is absent or empty.
\<close>

lemma login_checks_rev1_needs_both:
  "(login_checks_rev1 ev req = Some (ApiError 400 ''username or email is required.''))
     = (\<not> (truthy (map_of (req_body req) ''username'')
            \<and> truthy (map_of (req_body req) ''email'')))"
  by (auto simp: login_checks_rev1_def truthy_def
           split: option.splits sum.splits bool.splits if_splits dest: some_blank_error)

text \<open>
  Claim C8. For every login request, the identifier check rejects the request with the
  \<^verbatim>\<open>ApiError\<close> 400 "username or email is required." exactly when both identifiers are
  absent (undefined or empty): a request that supplies either one of them is never
  rejected for a missing identifier and proceeds to the checks that follow.
\<close>

theorem login_requires_one_identifier:
  "(fst (loginUser ev req w) = Inl (ApiError 400 ''username or email is required.''))
     = (\<not> truthy (map_of (req_body req) ''username'')
        \<and> \<not> truthy (map_of (req_body req) ''email''))"
  using login_session_error
  by (auto simp: loginUser_def Let_def split: sum.splits bool.splits option.splits
           dest: login_blank_error)

theorem login_requires_one_identifier_witness:
  "fst (loginUser (sample_env CHR ''B'') (request_with [(''password'', ''secret123'')])
          sample_world)
     = Inl (ApiError 400 ''username or email is required.'')
   \<and> truthy (map_of (req_body (request_with [(''username'', ''annlee''),
                                              (''password'', ''secret123'')])) ''username'')
   \<and> fst (loginUser (sample_env CHR ''B'')
            (request_with [(''username'', ''annlee''), (''password'', ''secret123'')])
            sample_world)
     \<noteq> Inl (ApiError 400 ''username or email is required.'')
   \<and> \<not> isl (fst (loginUser (sample_env CHR ''B'')
                   (request_with [(''username'', ''annlee''), (''password'', ''secret123'')])
                   sample_world))
   \<and> truthy (map_of (req_body (request_with [(''email'', ''ann@x.com''),
                                              (''password'', ''secret123'')])) ''email'')
   \<and> fst (loginUser (sample_env CHR ''B'')
            (request_with [(''email'', ''ann@x.com''), (''password'', ''secret123'')])
            sample_world)
     \<noteq> Inl (ApiError 400 ''username or email is required.'')
   \<and> \<not> isl (fst (loginUser (sample_env CHR ''B'')
                   (request_with [(''email'', ''ann@x.com''), (''password'', ''secret123'')])
                   sample_world))"
proof -
  let ?B = "sample_env CHR ''B''"
  let ?R0 = "request_with [(''password'', ''secret123'')]"
  let ?R1 = "request_with [(''username'', ''annlee''), (''password'', ''secret123'')]"
  let ?R2 = "request_with [(''email'', ''ann@x.com''), (''password'', ''secret123'')]"
  have absent: "\<not> truthy (map_of (req_body ?R0) ''username'')
                \<and> \<not> truthy (map_of (req_body ?R0) ''email'')"
    by (simp add: request_with_def truthy_def)
  have un: "truthy (map_of (req_body ?R1) ''username'')"
    by (simp add: request_with_def truthy_def)
  have em: "truthy (map_of (req_body ?R2) ''email'')"
    by (simp add: request_with_def truthy_def)
  from login_requires_one_identifier[of ?B ?R0 sample_world] absent
  have zero: "fst (loginUser ?B ?R0 sample_world)
      = Inl (ApiError 400 ''username or email is required.'')" by blast
  from login_requires_one_identifier[of ?B ?R1 sample_world] un
  have one: "fst (loginUser ?B ?R1 sample_world)
      \<noteq> Inl (ApiError 400 ''username or email is required.'')" by blast
  from login_requires_one_identifier[of ?B ?R2 sample_world] em
  have two: "fst (loginUser ?B ?R2 sample_world)
      \<noteq> Inl (ApiError 400 ''username or email is required.'')" by blast
  have ok: "\<not> isl (fst (loginUser ?B ?R1 sample_world))"
    "\<not> isl (fst (loginUser ?B ?R2 sample_world))"
    by (simp_all add: sample_defs controller_defs)
  from zero un one ok em two show ?thesis by blast
qed

text \<open>
  The checks that follow can still reject a request that carries an identifier: a username
  that is not lowercase fails the format check.
\<close>

lemma login_format_check_rejects:
  "loginUser (sample_env CHR ''B'')
      (request_with [(''username'', ''Bob''), (''password'', ''hunter22'')]) sample_world
     = (Inl (ApiError 400 ''email or username is invalid.''), sample_world)"
  by (simp add: sample_defs controller_defs)

section \<open>Registration\<close>

lemma User_create_success:
  assumes "User_create ev fn av avId cov covId un em pw w = (Inr u, w')"
  shows "\<exists>p. pw = Some p \<and> password u = bcrypt_hash ev p 10
           \<and> users w' = users w @ [u]
           \<and> findById (Some (uid u)) (users w') = Some u"
proof -
  from assms obtain f p where fp: "fn = Some f" "pw = Some p"
    by (auto simp: User_create_def split: option.splits)
  let ?doc = "\<lparr>uid = new_ObjectId ev, username = trim (toLowerCase un),
               email = trim (toLowerCase em), fullName = trim f, avatar = av,
               avatarId = avId, coverImage = cov, coverImageId = covId,
               watchHistory = [], password = p, refreshToken = None\<rparr>"
  from assms fp have u: "u = pre_save ev True ?doc" and us: "users w' = users w @ [u]"
    and fresh: "\<not> list_ex (\<lambda>x. uid x = new_ObjectId ev) (users w)"
    by (auto simp: User_create_def Let_def emit_def list_ex_iff split: if_splits)
  have "uid u = new_ObjectId ev" "password u = bcrypt_hash ev p 10"
    using u by (simp_all add: pre_save_def)
  with fp us fresh show ?thesis
    by (auto simp: findById_def intro: find_append_new)
qed

lemma select_excludes: "k \<in> set ex \<Longrightarrow> k \<notin> fst ` set (select ex u)"
  by (auto simp: select_def)

lemma User_create_error:
  "User_create ev fn av avId cov covId un em pw w = (Inl e, w') \<Longrightarrow> \<exists>m. e = StoreError m"
  by (auto simp: User_create_def Let_def split: option.splits if_splits)

lemma avatarLocalPath_error: "avatarLocalPath req = Inl e \<Longrightarrow> \<exists>m. e = TypeError m"
  by (auto simp: avatarLocalPath_def split: option.splits list.splits)

lemma register_create_avatar_required:
  assumes "fst (register_create ev req fn em un pw ap w) = Inl (ApiError 400 ''avatar is required.'')"
  shows "fst (uploadOnCloudinary ev ap w) = Inr None"
  using assms
  by (auto simp: register_create_def split: prod.splits sum.splits option.splits
           dest: uploadOnCloudinary_error User_create_error)

text \<open>
  Claim C7. For every registration that succeeds (valid inputs, a successful avatar upload,
  a document the store accepts), the created record is the one document added to the store,
  its \<^verbatim>\<open>password\<close> is the \<^verbatim>\<open>bcrypt\<close> hash (cost 10) of the submitted plaintext and so,
  the hash of a password being different from the password, is not the plaintext; the
  returned projection is the created record without \<^verbatim>\<open>password\<close> and
  \<^verbatim>\<open>refreshToken\<close> (and without the asset ids).
\<close>

theorem registered_password_is_hashed:
  assumes "registerUser ev req w = (Inr res, w')"
    and "map_of (req_body req) ''password'' = Some pw"
    and "bcrypt_hash ev pw 10 \<noteq> pw"
  shows "\<exists>u. users w' = users w @ [u]
           \<and> password u = bcrypt_hash ev pw 10 \<and> password u \<noteq> pw
           \<and> data (json res)
               = JObj (select [''password'', ''refreshToken'', ''avatarId'', ''coverImageId''] u)
           \<and> ''password'' \<notin> fst ` set (select [''password'', ''refreshToken'',
                                                 ''avatarId'', ''coverImageId''] u)
           \<and> ''refreshToken'' \<notin> fst ` set (select [''password'', ''refreshToken'',
                                                     ''avatarId'', ''coverImageId''] u)"
proof -
  from assms(1) obtain fn e n ap where
    rc: "register_create ev req fn e n (map_of (req_body req) ''password'') ap w = (Inr res, w')"
    by (auto simp: registerUser_def Let_def split: if_splits option.splits sum.splits)
  from rc obtain r1 w1 where u1: "uploadOnCloudinary ev ap w = (r1, w1)"
    by (cases "uploadOnCloudinary ev ap w") auto
  from rc u1 obtain r2 w2 where u2: "uploadOnCloudinary ev (coverImageLocalPath req) w1 = (r2, w2)"
    by (cases "uploadOnCloudinary ev (coverImageLocalPath req) w1") auto
  have us: "users w2 = users w"
    using uploadOnCloudinary_users[OF u1] uploadOnCloudinary_users[OF u2] by simp
  from rc u1 u2 obtain av avId cov covId un u where
    cr: "User_create ev fn av avId cov covId un e (map_of (req_body req) ''password'') w2 = (Inr u, w')"
    and cu: "findById (Some (uid u)) (users w') = Some u \<longrightarrow>
        data (json res) = JObj (select [''password'', ''refreshToken'', ''avatarId'', ''coverImageId''] u)"
    by (auto simp: register_create_def ApiResponse_def split: sum.splits option.splits prod.splits)
  from User_create_success[OF cr] assms(2) have
    "password u = bcrypt_hash ev pw 10" "users w' = users w2 @ [u]"
    "findById (Some (uid u)) (users w') = Some u" by auto
  with cu us assms(3) show ?thesis
    by (auto simp: select_excludes)
qed

theorem registered_password_is_hashed_witness:
  "\<not> isl (fst (registerUser (sample_env CHR ''B'')
                  (register_request (Some (avatar_upload ''/tmp/new.png''))) sample_world))
   \<and> bcrypt_hash (sample_env CHR ''B'') ''hunter22'' 10 \<noteq> ''hunter22''
   \<and> (\<exists>u. users (snd (registerUser (sample_env CHR ''B'')
                        (register_request (Some (avatar_upload ''/tmp/new.png''))) sample_world))
             = [ann, u]
          \<and> password u = ''$hunter22''
          \<and> data (json (projr (fst (registerUser (sample_env CHR ''B'')
                  (register_request (Some (avatar_upload ''/tmp/new.png''))) sample_world))))
              = JObj (select [''password'', ''refreshToken'', ''avatarId'', ''coverImageId''] u))"
proof -
  let ?B = "sample_env CHR ''B''"
  let ?R = "register_request (Some (avatar_upload ''/tmp/new.png''))"
  let ?X = "registerUser ?B ?R sample_world"
  have ok: "\<not> isl (fst ?X)" by (simp add: sample_defs controller_defs)
  then have x: "?X = (Inr (projr (fst ?X)), snd ?X)"
    by (cases "fst ?X") (simp_all add: prod_eq_iff)
  have p: "map_of (req_body ?R) ''password'' = Some ''hunter22''"
    by (simp add: sample_defs)
  have h: "bcrypt_hash ?B ''hunter22'' 10 \<noteq> ''hunter22''" by (simp add: sample_defs)
  from registered_password_is_hashed[OF x p h] obtain u where
    "users (snd ?X) = users sample_world @ [u]" "password u = bcrypt_hash ?B ''hunter22'' 10"
    "data (json (projr (fst ?X)))
       = JObj (select [''password'', ''refreshToken'', ''avatarId'', ''coverImageId''] u)"
    by blast
  then have "users (snd ?X) = [ann, u] \<and> password u = ''$hunter22''
      \<and> data (json (projr (fst ?X)))
       = JObj (select [''password'', ''refreshToken'', ''avatarId'', ''coverImageId''] u)"
    by (simp add: sample_defs)
  with ok h show ?thesis by blast
qed

text \<open>
  An upload of a truthy path adds the upload to the effects, and no later step removes an
  effect: a registration that reached the uploads has changed the world.
\<close>

lemma unlinkSync_trace: "unlinkSync p w = (r, w') \<Longrightarrow> length (trace w) \<le> length (trace w')"
  by (auto simp: unlinkSync_def emit_def split: if_splits)

lemma upload_catch_trace: "upload_catch p w = (r, w') \<Longrightarrow> length (trace w) \<le> length (trace w')"
  by (auto simp: upload_catch_def split: prod.splits sum.splits dest: unlinkSync_trace)

lemma uploadOnCloudinary_trace:
  "uploadOnCloudinary ev p w = (r, w') \<Longrightarrow> length (trace w) \<le> length (trace w')"
  by (auto simp: uploadOnCloudinary_def emit_def
           split: option.splits if_splits prod.splits sum.splits
           dest!: unlinkSync_trace upload_catch_trace)

lemma uploadOnCloudinary_trace_truthy:
  "truthy p \<Longrightarrow> uploadOnCloudinary ev p w = (r, w') \<Longrightarrow> length (trace w) < length (trace w')"
  by (auto simp: uploadOnCloudinary_def emit_def truthy_def
           split: option.splits if_splits prod.splits sum.splits
           dest!: unlinkSync_trace upload_catch_trace)

lemma User_create_trace:
  "User_create ev fn av avId cov covId un em pw w = (r, w')
     \<Longrightarrow> length (trace w) \<le> length (trace w')"
  by (auto simp: User_create_def Let_def emit_def split: option.splits if_splits)

lemma register_create_trace:
  assumes "truthy ap" and "register_create ev req fn em un pw ap w = (r, w')"
  shows "length (trace w) < length (trace w')"
proof -
  obtain r1 w1 where u1: "uploadOnCloudinary ev ap w = (r1, w1)"
    by (cases "uploadOnCloudinary ev ap w") auto
  obtain r2 w2 where u2: "uploadOnCloudinary ev (coverImageLocalPath req) w1 = (r2, w2)"
    by (cases "uploadOnCloudinary ev (coverImageLocalPath req) w1") auto
  have a: "length (trace w) < length (trace w1)"
    using assms(1) u1 by (rule uploadOnCloudinary_trace_truthy)
  have b: "length (trace w1) \<le> length (trace w2)"
    using u2 by (rule uploadOnCloudinary_trace)
  have "length (trace w1) \<le> length (trace w')"
  proof (cases r1)
    case (Inl e)
    with assms(2) u1 show ?thesis by (simp add: register_create_def)
  next
    case r1: (Inr avatar')
    show ?thesis
    proof (cases r2)
      case (Inl e)
      with assms(2) u1 u2 r1 b show ?thesis by (simp add: register_create_def)
    next
      case r2: (Inr coverImage')
      have "length (trace w2) \<le> length (trace w')"
        using assms(2) u1 u2 r1 r2
        by (auto simp: register_create_def split: sum.splits option.splits prod.splits
                 dest: User_create_trace)
      with b show ?thesis by simp
    qed
  qed
  with a show ?thesis by simp
qed

text \<open>
  The same error value is thrown a second time after the uploads (line 82), when the avatar
  upload returned null; the upload is then among the effects.
\<close>

lemma avatar_required_after_failed_upload:
  "registerUser (sample_env CHR ''B'')
      (register_request (Some (avatar_upload ''/tmp/bad.png''))) sample_world
     = (Inl (ApiError 400 ''avatar is required.''),
        \<lparr>users = [ann], local_files = [''/tmp/new.png''],
         trace = [Upload ''/tmp/bad.png'', Unlink ''/tmp/bad.png'']\<rparr>)"
  by (simp add: sample_defs controller_defs)

text \<open>
  Claim C10. There is a registration request whose \<^verbatim>\<open>req.files\<close> is present without an
  \<^verbatim>\<open>avatar\<close> field on which \<^verbatim>\<open>registerUser\<close> ends in the TypeError of the unguarded
  \<^verbatim>\<open>req.files?.avatar[0]\<close>, not in a ValidationError. And the ValidationError branch for a
  missing avatar (lines 73 to 75: the \<^verbatim>\<open>ApiError\<close> 400 "avatar is required." thrown
  before any upload, the world as it was) is reached only with a falsy avatar path, that is
  with \<^verbatim>\<open>req.files\<close> absent or with an \<^verbatim>\<open>avatar\<close> array whose first path is missing
  or empty.
\<close>

theorem avatar_branch_reachability:
  "(\<exists>ev0 req0 w0 fs.
       req_files req0 = Some fs \<and> files_avatar fs = None
       \<and> registerUser ev0 req0 w0
           = (Inl (TypeError ''Cannot read properties of undefined (reading 0)''), w0))
   \<and> (registerUser ev req w = (Inl (ApiError 400 ''avatar is required.''), w)
      \<longrightarrow> (\<exists>ap. avatarLocalPath req = Inr ap \<and> \<not> truthy ap)
          \<and> (req_files req = None
              \<or> (\<exists>fs fl. req_files req = Some fs \<and> files_avatar fs = Some fl)))"
proof (intro conjI impI)
  let ?R = "register_request (Some \<lparr>files_avatar = None, files_coverImage = None\<rparr>)"
  have "req_files ?R = Some \<lparr>files_avatar = None, files_coverImage = None\<rparr>
        \<and> files_avatar \<lparr>files_avatar = None, files_coverImage = None\<rparr> = None
        \<and> registerUser (sample_env CHR ''B'') ?R sample_world
            = (Inl (TypeError ''Cannot read properties of undefined (reading 0)''), sample_world)"
    by (simp add: sample_defs controller_defs)
  then show "\<exists>ev0 req0 w0 fs.
       req_files req0 = Some fs \<and> files_avatar fs = None
       \<and> registerUser ev0 req0 w0
           = (Inl (TypeError ''Cannot read properties of undefined (reading 0)''), w0)"
    by blast
next
  assume a: "registerUser ev req w = (Inl (ApiError 400 ''avatar is required.''), w)"
  then obtain ap where ap: "avatarLocalPath req = Inr ap"
    by (auto simp: registerUser_def Let_def split: if_splits option.splits sum.splits
             dest: avatarLocalPath_error)
  have "\<not> truthy ap"
  proof
    assume t: "truthy ap"
    with a ap obtain fn e n pw where
      "register_create ev req fn e n pw ap w = (Inl (ApiError 400 ''avatar is required.''), w)"
      by (auto simp: registerUser_def Let_def split: if_splits option.splits sum.splits)
    from register_create_trace[OF t this] show False by simp
  qed
  with ap show "\<exists>ap. avatarLocalPath req = Inr ap \<and> \<not> truthy ap" by blast
  from ap show "req_files req = None
              \<or> (\<exists>fs fl. req_files req = Some fs \<and> files_avatar fs = Some fl)"
    by (auto simp: avatarLocalPath_def split: option.splits)
qed

theorem avatar_branch_reachability_witness:
  "registerUser (sample_env CHR ''B'') (register_request None) sample_world
     = (Inl (ApiError 400 ''avatar is required.''), sample_world)
   \<and> req_files (register_request None) = None
   \<and> avatarLocalPath (register_request None) = Inr None
   \<and> \<not> truthy None"
proof -
  let ?B = "sample_env CHR ''B''"
  let ?R = "register_request None"
  have r: "registerUser ?B ?R sample_world
             = (Inl (ApiError 400 ''avatar is required.''), sample_world)"
    by (simp add: sample_defs controller_defs)
  from avatar_branch_reachability[of ?B ?R sample_world] r
  obtain ap where "avatarLocalPath ?R = Inr ap" "\<not> truthy ap" by blast
  moreover have "avatarLocalPath ?R = Inr None" "req_files ?R = None"
    by (simp_all add: sample_defs avatarLocalPath_def)
  ultimately show ?thesis using r by simp
qed

section \<open>Profile updates\<close>

text \<open>
  Claim C9. An update-user request without \<^verbatim>\<open>email\<close> fails, but the status of the
  error is 401, not the 400 of a ValidationError. Evaluated for the sample user.
\<close>

theorem update_details_missing_field_status:
  "updateUserDetails (sample_env CHR ''B'')
      ((request_with [(''fullName'', ''Ann L. Lee'')])\<lparr>req_user := Some ann\<rparr>) sample_world
     = (Inl (ApiError 401 ''fullname and email are required.''), sample_world)"
  by (simp add: sample_defs controller_defs)

text \<open>The same for every request that lacks \<^verbatim>\<open>fullName\<close> or \<^verbatim>\<open>email\<close>.\<close>

lemma update_details_missing_field:
  assumes "\<not> (truthy (map_of (req_body req) ''fullName'') \<and> truthy (map_of (req_body req) ''email''))"
  shows "updateUserDetails ev req w = (Inl (ApiError 401 ''fullname and email are required.''), w)"
  using assms by (auto simp: updateUserDetails_def truthy_def split: option.splits)

text \<open>On success the projection of the updated user leaves out the two secrets.\<close>

lemma update_details_projection:
  assumes "updateUserDetails ev req w = (Inr res, w1)"
  shows "\<exists>x. data (json res) = JObj [(''user'', select_opt [''password'', ''refreshToken''] x)]"
  using assms
  by (auto simp: updateUserDetails_def Let_def ApiResponse_def
           split: option.splits if_splits prod.splits)

text \<open>
  Claim C5. For every \<^verbatim>\<open>updateUserAvatar\<close> call by an authenticated user whose document
  is in the store and whose previous avatar id is present, when the new upload succeeds:
  the effects are, in this order, the upload, the unlink of the temporary file, the write of
  the new URL and asset id to the user's document, and one delete call, on the old asset
  id; the stored document holds the new URL and id whatever the delete call reports; and
  when the delete call reports failure the operation fails with the \<^verbatim>\<open>ApiError\<close> 400,
  the write not being undone.
\<close>

theorem avatar_persisted_before_delete:
  assumes "req_file req = Some f" and "path f = Some p" and "p \<noteq> []"
    and "p \<in> set (local_files w)"
    and "cloud_upload ev p = Some newAvatar"
    and "req_user req = Some ru"
    and "findById (Some (uid ru)) (users w) = Some u"
    and "avatarId ru = Some old" and "old \<noteq> []"
  shows "trace (snd (updateUserAvatar ev req w))
           = trace w @ [Upload p, Unlink p, StoreWrite (uid ru), Destroy old]
       \<and> map_option avatar (findById (Some (uid ru)) (users (snd (updateUserAvatar ev req w))))
           = Some (url newAvatar)
       \<and> map_option avatarId (findById (Some (uid ru)) (users (snd (updateUserAvatar ev req w))))
           = Some (Some (public_id newAvatar))
       \<and> (if cloud_destroy ev old = None
          then fst (updateUserAvatar ev req w)
                 = Inl (ApiError 400 ''Error while deleting the current avatar'')
          else \<not> isl (fst (updateUserAvatar ev req w)))"
proof -
  let ?g = "\<lambda>u. u\<lparr>avatar := url newAvatar, avatarId := Some (public_id newAvatar)\<rparr>"
  let ?w1 = "w\<lparr>local_files := removeAll p (local_files w), trace := trace w @ [Upload p, Unlink p]\<rparr>"
  have up: "uploadOnCloudinary ev (Some p) w = (Inr (Some newAvatar), ?w1)"
    using assms by (simp add: uploadOnCloudinary_present)
  have fu: "findById (Some (uid ru)) (users ?w1) = Some u" using assms by simp
  note upd = findByIdAndUpdate_found[OF fu, of ?g]
  have after: "findById (Some (uid ru)) (update_first (\<lambda>x. uid x = uid ru) ?g (users w)) = Some (?g u)"
    using assms by (simp add: findById_update_first)
  show ?thesis
    using assms up upd after
    by (cases "cloud_destroy ev old")
       (simp_all add: updateUserAvatar_def truthy_def deleteOnCloudinary_def emit_def)
qed

theorem avatar_persisted_before_delete_witness:
  "cloud_destroy (sample_env CHR ''B'') ''id/locked'' = None
   \<and> updateUserAvatar (sample_env CHR ''B'') (avatar_request ''/tmp/new.png'' locked_ann)
        (sample_world\<lparr>users := [locked_ann]\<rparr>)
      = (Inl (ApiError 400 ''Error while deleting the current avatar''),
         \<lparr>users = [locked_ann\<lparr>avatar := ''cdn//tmp/new.png'',
                               avatarId := Some ''id//tmp/new.png''\<rparr>],
          local_files = [''/tmp/bad.png''],
          trace = [Upload ''/tmp/new.png'', Unlink ''/tmp/new.png'', StoreWrite ''u1'',
                   Destroy ''id/locked'']\<rparr>)"
proof -
  let ?B = "sample_env CHR ''B''"
  let ?R = "avatar_request ''/tmp/new.png'' locked_ann"
  let ?W = "sample_world\<lparr>users := [locked_ann]\<rparr>"
  let ?X = "updateUserAvatar ?B ?R ?W"
  have h: "req_file ?R = Some \<lparr>path = Some ''/tmp/new.png''\<rparr>"
    "path \<lparr>path = Some ''/tmp/new.png''\<rparr> = Some ''/tmp/new.png''"
    "''/tmp/new.png'' \<noteq> []" "''/tmp/new.png'' \<in> set (local_files ?W)"
    "cloud_upload ?B ''/tmp/new.png'' = Some \<lparr>url = ''cdn//tmp/new.png'', public_id = ''id//tmp/new.png''\<rparr>"
    "req_user ?R = Some locked_ann"
    "findById (Some (uid locked_ann)) (users ?W) = Some locked_ann"
    "avatarId locked_ann = Some ''id/locked''" "''id/locked'' \<noteq> []"
    by (simp_all add: sample_defs findById_def)
  have d: "cloud_destroy ?B ''id/locked'' = None" by (simp add: sample_defs)
  from avatar_persisted_before_delete[OF h] d
  have "trace (snd ?X) = trace ?W @ [Upload ''/tmp/new.png'', Unlink ''/tmp/new.png'',
                                     StoreWrite (uid locked_ann), Destroy ''id/locked'']"
    and "fst ?X = Inl (ApiError 400 ''Error while deleting the current avatar'')"
    by simp_all
  moreover have "users (snd ?X) = [locked_ann\<lparr>avatar := ''cdn//tmp/new.png'',
                               avatarId := Some ''id//tmp/new.png''\<rparr>]"
    "local_files (snd ?X) = [''/tmp/bad.png'']"
    by (simp_all add: sample_defs controller_defs)
  ultimately have "?X = (Inl (ApiError 400 ''Error while deleting the current avatar''),
         \<lparr>users = [locked_ann\<lparr>avatar := ''cdn//tmp/new.png'',
                               avatarId := Some ''id//tmp/new.png''\<rparr>],
          local_files = [''/tmp/bad.png''],
          trace = [Upload ''/tmp/new.png'', Unlink ''/tmp/new.png'', StoreWrite ''u1'',
                   Destroy ''id/locked'']\<rparr>)"
    by (simp add: prod_eq_iff sample_defs)
  with d show ?thesis by blast
qed

end
